theory Spec2Isabelle
  imports Complex_Main
begin

section \<open>Numbers\<close>

text \<open>
  Times and lengths are JavaScript numbers in the source.  They are modelled as exact
  rationals: every comparison, sum and difference of the source is the same operation
  on \<open>rat\<close>, without rounding.  MIDI pitches, keys and octave offsets are integers.
\<close>

text \<open>JavaScript's \<open>%\<close> on integers: the remainder has the sign of the dividend.\<close>

definition js_rem :: "int \<Rightarrow> int \<Rightarrow> int" where
  "js_rem a b = (if a < 0 then - ((- a) mod \<bar>b\<bar>) else a mod \<bar>b\<bar>)"

text \<open>\<open>Math.round\<close> rounds to the nearest integer, a half towards plus infinity.\<close>

definition Math_round :: "rat \<Rightarrow> int" where
  "Math_round x = \<lfloor>x + 1 / 2\<rfloor>"

definition Math_floor :: "rat \<Rightarrow> int" where
  "Math_floor x = \<lfloor>x\<rfloor>"

section \<open>Constants of the model (model\_constants)\<close>

definition MIDDLE_C_MIDI :: int where
  "MIDDLE_C_MIDI = 60"

text \<open>The table is a JavaScript object: a missing key reads as \<open>undefined\<close> (\<open>None\<close>).\<close>

definition MAJOR_SCALE_INTERVALS :: "int \<Rightarrow> int option" where
  "MAJOR_SCALE_INTERVALS i =
     (if i = 0 then Some 1
      else if i = 2 then Some 2
      else if i = 4 then Some 3
      else if i = 5 then Some 4
      else if i = 7 then Some 5
      else if i = 9 then Some 6
      else if i = 11 then Some 7
      else None)"

section \<open>The pitch mapper (mapMidiToJianpu)\<close>

text \<open>The object returned by \<open>mapMidiToJianpu\<close>; accidental 0 = none, 1 = sharp, 2 = flat.\<close>

record Details =
  jianpuNumber :: int
  octaveDot :: int
  accidental :: int

text \<open>The local \<open>tonicMidiRef\<close>: the tonic in the octave drawn without dots.\<close>

definition tonicMidiRef :: "int \<Rightarrow> int" where
  "tonicMidiRef key =
     (let keyPitchClass = js_rem key 12;
          r = MIDDLE_C_MIDI + keyPitchClass
      in if keyPitchClass > js_rem MIDDLE_C_MIDI 12 then r - 12 else r)"

text \<open>The local \<open>interval\<close>: semitones from the octave-adjusted tonic to the pitch.\<close>

definition interval :: "int \<Rightarrow> int \<Rightarrow> int" where
  "interval midiPitch key =
     (let octaveOffsetForIntervalCalc =
            Math_round (of_int (midiPitch - tonicMidiRef key) / 12);
          tonicMidi = tonicMidiRef key + octaveOffsetForIntervalCalc * 12
      in js_rem (midiPitch - tonicMidi + 12) 12)"

text \<open>
  The \<open>switch\<close> on a chromatic interval: the degree read from the table (still possibly
  undefined) and the accidental.
\<close>

definition chromatic :: "int \<Rightarrow> int option \<times> int" where
  "chromatic i =
     (if i = 1 then (MAJOR_SCALE_INTERVALS 0, 1)
      else if i = 3 then (MAJOR_SCALE_INTERVALS 4, 2)
      else if i = 6 then (MAJOR_SCALE_INTERVALS 5, 1)
      else if i = 8 then (MAJOR_SCALE_INTERVALS 9, 2)
      else if i = 10 then (MAJOR_SCALE_INTERVALS 11, 2)
      else
        (let lowerIntervalFallback = js_rem (i - 1 + 12) 12;
             upperIntervalFallback = js_rem (i + 1 + 12) 12
         in case MAJOR_SCALE_INTERVALS lowerIntervalFallback of
              Some d \<Rightarrow> (Some d, 1)
            | None \<Rightarrow>
                (case MAJOR_SCALE_INTERVALS upperIntervalFallback of
                   Some d \<Rightarrow> (Some d, 2)
                 | None \<Rightarrow> (Some 1, 1))))"

definition mapMidiToJianpu :: "int \<Rightarrow> int \<Rightarrow> Details" where
  "mapMidiToJianpu midiPitch key =
     (let i = interval midiPitch key;
          (num, acc) =
            (case MAJOR_SCALE_INTERVALS i of
               Some d \<Rightarrow> (d, 0)
             | None \<Rightarrow>
                 (case chromatic i of
                    (Some d, a) \<Rightarrow> (d, a)
                  | (None, a) \<Rightarrow> (1, 1)))
      in \<lparr> Details.jianpuNumber = num,
           octaveDot = Math_floor (of_int (midiPitch - tonicMidiRef key) / 12),
           accidental = acc \<rparr>)"

text \<open>The degree and the accidental of a mapping, as a pair.\<close>

definition degreeAccidental :: "int \<Rightarrow> int \<Rightarrow> int \<times> int" where
  "degreeAccidental midiPitch key =
     (Details.jianpuNumber (mapMidiToJianpu midiPitch key),
      Details.accidental (mapMidiToJianpu midiPitch key))"

text \<open>
  The table of the specification, in its words: the diatonic intervals 0, 2, 4, 5, 7, 9, 11
  are the degrees 1 to 7 with no accidental; the intervals 1 and 6 raise the lower degree
  with a sharp (1), the intervals 3, 8 and 10 lower the upper degree with a flat (2).
\<close>

definition specDegreeTable :: "int \<Rightarrow> int \<times> int" where
  "specDegreeTable i =
     (if i = 0 then (1, 0) else if i = 1 then (1, 1)
      else if i = 2 then (2, 0) else if i = 3 then (3, 2)
      else if i = 4 then (3, 0)
      else if i = 5 then (4, 0) else if i = 6 then (4, 1)
      else if i = 7 then (5, 0) else if i = 8 then (6, 2)
      else if i = 9 then (6, 0) else if i = 10 then (7, 2)
      else (7, 0))"

section \<open>Score information (jianpu\_info)\<close>

record NoteInfo =
  start :: rat
  length :: rat
  pitch :: int
  intensity :: int

record TempoInfo =
  start :: rat
  qpm :: rat

record KeySignatureInfo =
  start :: rat
  key :: int

record TimeSignatureInfo =
  start :: rat
  numerator :: rat
  denominator :: rat

text \<open>The optional lists of the source are empty lists here when absent.\<close>

record JianpuInfo =
  notes_of :: "NoteInfo list"
  tempos :: "TempoInfo list"
  keySignatures :: "KeySignatureInfo list"
  timeSignatures :: "TimeSignatureInfo list"

definition DEFAULT_TEMPO :: TempoInfo where
  "DEFAULT_TEMPO = \<lparr> TempoInfo.start = 0, qpm = 60 \<rparr>"

definition DEFAULT_KEY_SIGNATURE :: KeySignatureInfo where
  "DEFAULT_KEY_SIGNATURE = \<lparr> KeySignatureInfo.start = 0, key = 0 \<rparr>"

definition DEFAULT_TIME_SIGNATURE :: TimeSignatureInfo where
  "DEFAULT_TIME_SIGNATURE = \<lparr> TimeSignatureInfo.start = 0, numerator = 4, denominator = 4 \<rparr>"

definition getMeasureLength :: "TimeSignatureInfo \<Rightarrow> rat" where
  "getMeasureLength timeSignature = numerator timeSignature * (4 / denominator timeSignature)"

definition MIN_RESOLUTION :: rat where
  "MIN_RESOLUTION = 1 / 16"

text \<open>The tolerance \<open>1e-6\<close> of the source.\<close>

definition eps :: rat where
  "eps = 1 / 1000000"

section \<open>The measure index (measure\_info)\<close>

record MeasureInfo =
  start :: rat
  measureNumber :: rat
  measureLength :: rat
  tempo :: TempoInfo
  keySignature :: KeySignatureInfo
  timeSignature :: TimeSignatureInfo
  tempoChange :: bool
  keyChange :: bool
  timeChange :: bool

record MeasuresInfo =
  measuresInfo :: "MeasureInfo list"
  allowDottedRests :: bool

text \<open>The variables of the constructor's loop.\<close>

record FillState =
  loopQuarters :: rat
  tempoIndex :: nat
  keyIndex :: nat
  timeIndex :: nat
  currentTempo :: TempoInfo
  currentKeySignature :: KeySignatureInfo
  currentTimeSignature :: TimeSignatureInfo
  measureNumberAtCurrentTimeSignature :: rat
  currentMeasureLength :: rat
  timeOfLastTimeSigChange :: rat
  chunks :: "MeasureInfo list"

text \<open>One pass through the body of the loop, with the increment of \<open>quarters\<close>.\<close>

definition fillStep :: "JianpuInfo \<Rightarrow> FillState \<Rightarrow> FillState" where
  "fillStep info st =
     (let q = loopQuarters st;
          resolutionStep = MIN_RESOLUTION;
          timeSinceLastSigChange = q - timeOfLastTimeSigChange st;
          measuresPassedSinceSigChange = timeSinceLastSigChange / currentMeasureLength st;
          currentMeasureNumber = measureNumberAtCurrentTimeSignature st + measuresPassedSinceSigChange;
          m0 = \<lparr> MeasureInfo.start = q, measureNumber = currentMeasureNumber,
                 measureLength = currentMeasureLength st, tempo = currentTempo st,
                 keySignature = currentKeySignature st,
                 timeSignature = currentTimeSignature st,
                 tempoChange = False, keyChange = False, timeChange = False \<rparr>;
          (st1, m1) =
            (if tempoIndex st < List.length (tempos info)
                \<and> \<bar>TempoInfo.start (tempos info ! tempoIndex st) - q\<bar> < resolutionStep / 2
             then (let t = tempos info ! tempoIndex st
                   in (st\<lparr> currentTempo := t, tempoIndex := tempoIndex st + 1 \<rparr>,
                       m0\<lparr> tempo := t, tempoChange := True \<rparr>))
             else (st, m0));
          (st2, m2) =
            (if keyIndex st1 < List.length (keySignatures info)
                \<and> \<bar>KeySignatureInfo.start (keySignatures info ! keyIndex st1) - q\<bar> < resolutionStep / 2
             then (let k = keySignatures info ! keyIndex st1
                   in (st1\<lparr> currentKeySignature := k, keyIndex := keyIndex st1 + 1 \<rparr>,
                       m1\<lparr> keySignature := k, keyChange := True \<rparr>))
             else (st1, m1));
          (st3, m3) =
            (if timeIndex st2 < List.length (timeSignatures info)
                \<and> \<bar>TimeSignatureInfo.start (timeSignatures info ! timeIndex st2) - q\<bar> < resolutionStep / 2
             then (let ts = timeSignatures info ! timeIndex st2;
                       timeAtChange = TimeSignatureInfo.start ts;
                       timeSincePrevSigChange = timeAtChange - timeOfLastTimeSigChange st2;
                       mn = measureNumberAtCurrentTimeSignature st2
                              + timeSincePrevSigChange / currentMeasureLength st2;
                       mn' = of_int (Math_round (mn * 1000)) / 1000
                   in (st2\<lparr> measureNumberAtCurrentTimeSignature := mn',
                             currentTimeSignature := ts, timeIndex := timeIndex st2 + 1,
                             currentMeasureLength := getMeasureLength ts,
                             timeOfLastTimeSigChange := MeasureInfo.start m2 \<rparr>,
                       m2\<lparr> timeSignature := ts, measureLength := getMeasureLength ts,
                            MeasureInfo.measureNumber := mn', timeChange := True \<rparr>))
             else (st2, m2))
      in st3\<lparr> chunks := chunks st3 @ [m3], loopQuarters := q + resolutionStep \<rparr>)"

text \<open>The loop \<open>for (quarters = 0; quarters < lastQ; quarters += resolutionStep)\<close>.\<close>

function fillLoop :: "JianpuInfo \<Rightarrow> rat \<Rightarrow> FillState \<Rightarrow> FillState" where
  "fillLoop info lastQ st =
     (if loopQuarters st < lastQ then fillLoop info lastQ (fillStep info st) else st)"
  by pat_completeness auto
termination
proof (relation "measure (\<lambda>(info, lastQ, st). nat \<lceil>(lastQ - loopQuarters st) * 16\<rceil>)")
  show "wf (measure (\<lambda>(info, lastQ, st). nat \<lceil>(lastQ - loopQuarters st) * 16\<rceil>))" by simp
next
  fix info :: JianpuInfo and lastQ :: rat and st :: FillState
  assume a: "loopQuarters st < lastQ"
  have "loopQuarters (fillStep info st) = loopQuarters st + MIN_RESOLUTION"
    by (simp add: fillStep_def Let_def split: prod.splits)
  then have e: "(lastQ - loopQuarters (fillStep info st)) * 16 = (lastQ - loopQuarters st) * 16 - 1"
    by (simp add: MIN_RESOLUTION_def algebra_simps)
  have "\<lceil>(lastQ - loopQuarters (fillStep info st)) * 16\<rceil> = \<lceil>(lastQ - loopQuarters st) * 16\<rceil> - 1"
    unfolding e by simp
  moreover have "0 < \<lceil>(lastQ - loopQuarters st) * 16\<rceil>" using a by simp
  ultimately show "((info, lastQ, fillStep info st), (info, lastQ, st))
      \<in> measure (\<lambda>(info, lastQ, st). nat \<lceil>(lastQ - loopQuarters st) * 16\<rceil>)"
    by simp
qed

declare fillLoop.simps [simp del]

text \<open>
  The constructor.  It reads the first element of each list; \<open>JianpuModel.update\<close>, its
  only caller, has made the three lists non-empty.
\<close>

definition newMeasuresInfo :: "JianpuInfo \<Rightarrow> rat \<Rightarrow> MeasuresInfo" where
  "newMeasuresInfo info lastQ =
     (let ts = timeSignatures info ! 0;
          st = \<lparr> loopQuarters = 0, tempoIndex = 0, keyIndex = 0, timeIndex = 0,
                 currentTempo = tempos info ! 0,
                 currentKeySignature = keySignatures info ! 0,
                 currentTimeSignature = ts,
                 measureNumberAtCurrentTimeSignature = 1,
                 currentMeasureLength = getMeasureLength ts,
                 timeOfLastTimeSigChange = TimeSignatureInfo.start ts,
                 chunks = [] \<rparr>
      in \<lparr> measuresInfo = chunks (fillLoop info lastQ st), allowDottedRests = True \<rparr>)"

definition findIndex :: "MeasuresInfo \<Rightarrow> rat \<Rightarrow> nat" where
  "findIndex mi s =
     nat (max 0 (min (int (List.length (measuresInfo mi)) - 1) (Math_floor (s / MIN_RESOLUTION))))"

definition measureNumberAtQ :: "MeasuresInfo \<Rightarrow> rat \<Rightarrow> rat" where
  "measureNumberAtQ mi s =
     (if measuresInfo mi = [] then 1
      else
        (let reference = measuresInfo mi ! findIndex mi s;
             quartersAdvance = s - MeasureInfo.start reference;
             measureAdvanceSinceReference = quartersAdvance / measureLength reference
         in MeasureInfo.measureNumber reference + measureAdvanceSinceReference
              + 1 / 1000000000))"

definition measureLengthAtQ :: "MeasuresInfo \<Rightarrow> rat \<Rightarrow> rat" where
  "measureLengthAtQ mi s =
     (if measuresInfo mi = [] then getMeasureLength DEFAULT_TIME_SIGNATURE
      else measureLength (measuresInfo mi ! findIndex mi s))"

text \<open>\<open>keySignatureAtQ\<close> and \<open>timeSignatureAtQ\<close> with \<open>onlyChanges\<close> at its default, false.\<close>

definition keySignatureAtQ :: "MeasuresInfo \<Rightarrow> rat \<Rightarrow> int" where
  "keySignatureAtQ mi s =
     (if measuresInfo mi = [] then key DEFAULT_KEY_SIGNATURE
      else key (keySignature (measuresInfo mi ! findIndex mi s)))"

definition timeSignatureAtQ :: "MeasuresInfo \<Rightarrow> rat \<Rightarrow> TimeSignatureInfo" where
  "timeSignatureAtQ mi s =
     (if measuresInfo mi = [] then DEFAULT_TIME_SIGNATURE
      else timeSignature (measuresInfo mi ! findIndex mi s))"

section \<open>Notes and ties (jianpu\_block)\<close>

text \<open>
  Notes are objects that refer to each other through \<open>tiedFrom\<close> and \<open>tiedTo\<close> and are
  changed in place.  They live in a store, a list of notes; a reference is an index into
  it and a new object is appended at the end.
\<close>

type_synonym ref = nat

record JianpuNote = NoteInfo +
  jianpuNumber :: int
  octaveDot :: int
  accidental :: int
  tiedFrom :: "ref option"
  tiedTo :: "ref option"

type_synonym store = "JianpuNote list"

definition isSafeZero :: "rat \<Rightarrow> bool" where
  "isSafeZero n = (\<bar>n\<bar> < eps)"

text \<open>
  \<open>splitJianpuNote\<close> returns the reference of the second half (\<open>None\<close> for \<open>null\<close>) and the
  store after the call.
\<close>

definition splitJianpuNote :: "store \<Rightarrow> ref \<Rightarrow> rat \<Rightarrow> ref option \<times> store" where
  "splitJianpuNote h jianpuNote quarters =
     (let n = h ! jianpuNote;
          originalEnd = NoteInfo.start n + NoteInfo.length n
      in if quarters \<le> NoteInfo.start n \<or> quarters \<ge> originalEnd
            \<or> isSafeZero (originalEnd - quarters)
         then (None, h)
         else
           (let remainLength = originalEnd - quarters;
                h1 = h[jianpuNote := n\<lparr> NoteInfo.length := quarters - NoteInfo.start n \<rparr>];
                new = List.length h1;
                splitted = \<lparr> NoteInfo.start = quarters, length = remainLength,
                             pitch = pitch n, intensity = intensity n,
                             jianpuNumber = JianpuNote.jianpuNumber n,
                             octaveDot = JianpuNote.octaveDot n,
                             accidental = 0,
                             tiedFrom = Some jianpuNote, tiedTo = None \<rparr>;
                h2 = h1 @ [splitted];
                h3 = (case tiedTo (h2 ! jianpuNote) of
                        Some t \<Rightarrow>
                          (let h' = h2[new := (h2 ! new)\<lparr> tiedTo := Some t \<rparr>]
                           in h'[t := (h' ! t)\<lparr> tiedFrom := Some new \<rparr>])
                      | None \<Rightarrow> h2);
                h4 = h3[jianpuNote := (h3 ! jianpuNote)\<lparr> tiedTo := Some new \<rparr>]
            in (Some new, h4)))"

section \<open>Blocks (jianpu\_block)\<close>

text \<open>
  A block holds the references of its notes.  The optional properties of the source
  (\<open>undefined\<close> until set, removed by \<open>delete\<close>) are options.
\<close>

record JianpuBlock =
  start :: rat
  length :: rat
  blockNotes :: "ref list"
  measureNumber :: rat
  durationLines :: "nat option"
  augmentationDots :: "nat option"
  augmentationDash :: "bool option"
  beatBegin :: "bool option"
  beatEnd :: "bool option"
  isTieStart :: "bool option"
  isTieEnd :: "bool option"

text \<open>The constructor \<open>new JianpuBlock(start, length, notes, measureNumber)\<close>.\<close>

definition newJianpuBlock :: "rat \<Rightarrow> rat \<Rightarrow> ref list \<Rightarrow> rat \<Rightarrow> JianpuBlock" where
  "newJianpuBlock s l ns m =
     \<lparr> JianpuBlock.start = s, length = l, blockNotes = ns, measureNumber = m,
       durationLines = None, augmentationDots = None, augmentationDash = None,
       beatBegin = None, beatEnd = None, isTieStart = None, isTieEnd = None \<rparr>"

text \<open>The index of the first note of the block with the given pitch.\<close>

fun findPitch :: "store \<Rightarrow> int \<Rightarrow> ref list \<Rightarrow> nat option" where
  "findPitch h p [] = None"
| "findPitch h p (r # rs) =
     (if pitch (h ! r) = p then Some 0
      else (case findPitch h p rs of None \<Rightarrow> None | Some i \<Rightarrow> Some (Suc i)))"

text \<open>
  The minimum of the lengths of the notes of a block, starting from \<open>Infinity\<close> in the
  source; the list is never empty where it is used, so the first length stands for it.
\<close>

fun minLength :: "store \<Rightarrow> ref list \<Rightarrow> rat" where
  "minLength h [] = 0"
| "minLength h [r] = NoteInfo.length (h ! r)"
| "minLength h (r # rs) = min (NoteInfo.length (h ! r)) (minLength h rs)"

text \<open>
  The relinking of \<open>addNote\<close> when the new note replaces a longer one of the same pitch:
  the ties of the replaced note pass to the new note.
\<close>

definition relinkTies :: "store \<Rightarrow> ref \<Rightarrow> ref \<Rightarrow> store" where
  "relinkTies h old jianpuNote =
     (let h1 = (case tiedFrom (h ! old) of
                  Some f \<Rightarrow>
                    (let h' = h[jianpuNote := (h ! jianpuNote)\<lparr> tiedFrom := Some f \<rparr>]
                     in h'[f := (h' ! f)\<lparr> tiedTo := Some jianpuNote \<rparr>])
                | None \<Rightarrow> h)
      in (case tiedTo (h1 ! old) of
            Some t \<Rightarrow>
              (let h' = h1[jianpuNote := (h1 ! jianpuNote)\<lparr> tiedTo := Some t \<rparr>]
               in h'[t := (h' ! t)\<lparr> tiedFrom := Some jianpuNote \<rparr>])
          | None \<Rightarrow> h1))"

text \<open>\<open>addNote\<close> returns its boolean result, the block and the store after the call.\<close>

definition addNote :: "store \<Rightarrow> JianpuBlock \<Rightarrow> ref \<Rightarrow> bool \<times> JianpuBlock \<times> store" where
  "addNote h b jianpuNote =
     (let n = h ! jianpuNote
      in if blockNotes b = []
         then (True, b\<lparr> JianpuBlock.start := NoteInfo.start n,
                         JianpuBlock.length := NoteInfo.length n,
                         blockNotes := [jianpuNote] \<rparr>, h)
         else if \<not> isSafeZero (JianpuBlock.start b - NoteInfo.start n)
         then (False, b, h)
         else
           (case findPitch h (pitch n) (blockNotes b) of
              Some i \<Rightarrow>
                (if NoteInfo.length n < NoteInfo.length (h ! (blockNotes b ! i))
                 then
                   (let h' = relinkTies h (blockNotes b ! i) jianpuNote;
                        ns = (blockNotes b)[i := jianpuNote]
                    in (True, b\<lparr> JianpuBlock.length := minLength h' ns, blockNotes := ns \<rparr>, h'))
                 else (False, b\<lparr> JianpuBlock.length := minLength h (blockNotes b) \<rparr>, h))
            | None \<Rightarrow>
                (let ns = blockNotes b @ [jianpuNote]
                 in (True, b\<lparr> JianpuBlock.length := minLength h ns, blockNotes := ns \<rparr>, h))))"

text \<open>Adding a list of notes in order, as \<open>notes.forEach(note => block.addNote(note))\<close>.\<close>

fun addNotes :: "store \<Rightarrow> JianpuBlock \<Rightarrow> ref list \<Rightarrow> JianpuBlock \<times> store" where
  "addNotes h b [] = (b, h)"
| "addNotes h b (r # rs) = (case addNote h b r of (ok, b', h') \<Rightarrow> addNotes h' b' rs)"

text \<open>
  The loop of \<open>split\<close> over the notes of the block: a note that crosses the split point is
  split, and its second half is collected for the new block.
\<close>

fun splitNotes :: "store \<Rightarrow> ref list \<Rightarrow> rat \<Rightarrow> ref list \<times> store" where
  "splitNotes h [] q = ([], h)"
| "splitNotes h (r # rs) q =
     (let noteEnd = NoteInfo.start (h ! r) + NoteInfo.length (h ! r)
      in if noteEnd > q + eps
         then (case splitJianpuNote h r q of
                 (Some remainingNotePart, h') \<Rightarrow>
                   (case splitNotes h' rs q of (ps, h'') \<Rightarrow> (remainingNotePart # ps, h''))
               | (None, h') \<Rightarrow> splitNotes h' rs q)
         else splitNotes h rs q)"

text \<open>
  \<open>split\<close> returns the new block (\<open>None\<close> for \<open>null\<close>), this block and the store after the
  call.
\<close>

definition split ::
  "MeasuresInfo \<Rightarrow> store \<Rightarrow> JianpuBlock \<Rightarrow> rat \<Rightarrow> JianpuBlock option \<times> JianpuBlock \<times> store" where
  "split mi h b q =
     (let originalEnd = JianpuBlock.start b + JianpuBlock.length b
      in if q \<le> JianpuBlock.start b \<or> q \<ge> originalEnd \<or> isSafeZero (originalEnd - q)
         then (None, b, h)
         else
           (let remainLength = originalEnd - q;
                newBlockLength = q - JianpuBlock.start b;
                splittedBlock = newJianpuBlock q remainLength [] (measureNumberAtQ mi q);
                (notesForNewBlock, h1) = splitNotes h (blockNotes b) q;
                (sb, h2) = addNotes h1 splittedBlock notesForNewBlock;
                b1 = b\<lparr> JianpuBlock.length := newBlockLength, durationLines := None,
                        augmentationDots := None, augmentationDash := None \<rparr>;
                (sb1, b2) = (if beatEnd b1 = Some True
                             then (sb\<lparr> beatEnd := Some True \<rparr>, b1\<lparr> beatEnd := None \<rparr>)
                             else (sb, b1));
                (sb2, b3) = (if isTieEnd b2 = Some True
                             then (sb1\<lparr> isTieStart := Some True \<rparr>, b2\<lparr> isTieEnd := None \<rparr>)
                             else (sb1, b2))
            in (Some sb2, b3, h2)))"

text \<open>\<open>notes.some(n => n.tiedFrom)\<close> and \<open>notes.some(n => n.tiedTo)\<close>.\<close>

definition someTiedFrom :: "store \<Rightarrow> ref list \<Rightarrow> bool" where
  "someTiedFrom h rs = list_ex (\<lambda>r. tiedFrom (h ! r) \<noteq> None) rs"

definition someTiedTo :: "store \<Rightarrow> ref list \<Rightarrow> bool" where
  "someTiedTo h rs = list_ex (\<lambda>r. tiedTo (h ! r) \<noteq> None) rs"

definition splitToBeat ::
  "MeasuresInfo \<Rightarrow> store \<Rightarrow> JianpuBlock \<Rightarrow> JianpuBlock option \<times> JianpuBlock \<times> store" where
  "splitToBeat mi h b =
     (let ts = timeSignatureAtQ mi (JianpuBlock.start b);
          mLength = measureLengthAtQ mi (JianpuBlock.start b);
          measureNum = measureNumberAtQ mi (JianpuBlock.start b);
          measureStart = JianpuBlock.start b
             - (measureNum - of_int (Math_floor measureNum)) * mLength;
          timeInMeasure = JianpuBlock.start b - measureStart;
          beatLength = 4 / denominator ts;
          startBeatFraction = timeInMeasure / beatLength;
          b0 = b\<lparr> beatBegin :=
                    Some (isSafeZero (startBeatFraction - of_int (Math_round startBeatFraction))) \<rparr>;
          currentBeatNumber = Math_floor (startBeatFraction + eps);
          nextBeatTimeInMeasure = (of_int currentBeatNumber + 1) * beatLength;
          nextBeatTimeAbsolute = measureStart + nextBeatTimeInMeasure;
          measureEndTime = measureStart + mLength;
          blockEndTime = JianpuBlock.start b + JianpuBlock.length b;
          splitTime0 = (if nextBeatTimeAbsolute < blockEndTime - eps
                           \<and> nextBeatTimeAbsolute > JianpuBlock.start b + eps
                        then Some nextBeatTimeAbsolute else None);
          splitTime = (if measureEndTime < blockEndTime - eps
                          \<and> measureEndTime > JianpuBlock.start b + eps
                       then (case splitTime0 of
                               None \<Rightarrow> Some measureEndTime
                             | Some t \<Rightarrow> if measureEndTime < t then Some measureEndTime else Some t)
                       else splitTime0)
      in case splitTime of
           Some t \<Rightarrow>
             (case split mi h b0 t of
                (Some sb, b1, h1) \<Rightarrow>
                  (let b2 = b1\<lparr> beatEnd := Some True,
                               isTieStart := Some (someTiedFrom h1 (blockNotes b1)),
                               isTieEnd := Some (someTiedTo h1 (blockNotes b1)) \<rparr>;
                       sb1 = sb\<lparr> isTieStart := Some (someTiedFrom h1 (blockNotes sb)),
                                isTieEnd := Some (someTiedTo h1 (blockNotes sb)) \<rparr>;
                       b3 = (if list_ex (\<lambda>r. tiedTo (h1 ! r) \<noteq> None
                                   \<and> NoteInfo.start (h1 ! r) + NoteInfo.length (h1 ! r) > t)
                                 (blockNotes b2)
                             then b2\<lparr> isTieEnd := None \<rparr> else b2)
                   in (Some sb1, b3, h1))
              | (None, b1, h1) \<Rightarrow>
                  (None, b1\<lparr> isTieStart := Some (someTiedFrom h1 (blockNotes b1)),
                             isTieEnd := Some (someTiedTo h1 (blockNotes b1)) \<rparr>, h1))
         | None \<Rightarrow>
             (let endBeatFraction = (timeInMeasure + JianpuBlock.length b) / beatLength;
                  be = isSafeZero (endBeatFraction - of_int (Math_round endBeatFraction));
                  be' = (if \<not> be then isSafeZero (blockEndTime - measureEndTime) else be)
              in (None, b0\<lparr> beatEnd := Some be',
                             isTieStart := Some (someTiedFrom h (blockNotes b0)),
                             isTieEnd := Some (someTiedTo h (blockNotes b0)) \<rparr>, h)))"

text \<open>The table of standard lengths, longest first.\<close>

definition standardLengths :: "MeasuresInfo \<Rightarrow> JianpuBlock \<Rightarrow> rat list" where
  "standardLengths mi b =
     (if allowDottedRests mi \<or> blockNotes b \<noteq> []
      then [6, 4, 3, 2, 3 / 2, 1, 3 / 4, 1 / 2, 3 / 8, 1 / 4, 1 / 8, 1 / 16]
      else [4, 2, 1, 1 / 2, 1 / 4, 1 / 8, 1 / 16])"

definition splitToStandardSymbol ::
  "MeasuresInfo \<Rightarrow> store \<Rightarrow> JianpuBlock \<Rightarrow> JianpuBlock option \<times> JianpuBlock \<times> store" where
  "splitToStandardSymbol mi h b =
     (let blockLength = JianpuBlock.length b
      in if isSafeZero blockLength \<or> blockLength < MIN_RESOLUTION - eps
         then (None, b, h)
         else
           (let found = (case find (\<lambda>standardLen. blockLength \<ge> standardLen - eps)
                                (standardLengths mi b) of
                           Some standardLen \<Rightarrow> standardLen
                         | None \<Rightarrow> 0);
                bestFitLength = (if isSafeZero found then MIN_RESOLUTION else found)
            in if blockLength > bestFitLength + eps
               then (case split mi h b (JianpuBlock.start b + bestFitLength) of
                       (splittedBlock, b1, h1) \<Rightarrow>
                         (splittedBlock,
                          (if JianpuBlock.length b1 \<noteq> bestFitLength
                           then b1\<lparr> JianpuBlock.length := bestFitLength \<rparr> else b1),
                          h1))
               else (None, b\<lparr> JianpuBlock.length := bestFitLength \<rparr>, h)))"

text \<open>JavaScript's \<open>x % 1\<close>: the fractional part, with the sign of \<open>x\<close>.\<close>

definition js_rem1 :: "rat \<Rightarrow> rat" where
  "js_rem1 x = (if x < 0 then x - of_int \<lceil>x\<rceil> else x - of_int \<lfloor>x\<rfloor>)"

text \<open>The number of duration lines for a block length.\<close>

definition linesFor :: "rat \<Rightarrow> nat" where
  "linesFor blockLength =
     (if blockLength \<ge> 4 - eps then 0
      else if blockLength \<ge> 2 - eps then 0
      else if blockLength \<ge> 1 - eps then 0
      else if blockLength \<ge> 1 / 2 - eps then 1
      else if blockLength \<ge> 1 / 4 - eps then 2
      else if blockLength \<ge> 1 / 8 - eps then 3
      else if blockLength \<ge> 1 / 16 - eps then 4
      else 4)"

text \<open>The continuation dash of a block with a single note.\<close>

definition continuationDash :: "MeasuresInfo \<Rightarrow> store \<Rightarrow> JianpuBlock \<Rightarrow> ref \<Rightarrow> bool" where
  "continuationDash mi h b currentNote =
     (let n = h ! currentNote;
          ts = timeSignatureAtQ mi (JianpuBlock.start b);
          beatLength = max (4 / denominator ts) 1;
          isFirstBlock = (js_rem1 (JianpuBlock.measureNumber b) \<le> eps)
      in case tiedFrom n of
           None \<Rightarrow> False
         | Some f \<Rightarrow>
             (if \<not> isFirstBlock \<and> isSafeZero (NoteInfo.length (h ! f) - beatLength)
                 \<and> pitch (h ! f) = pitch n \<and> NoteInfo.length n \<ge> 1
              then (case tiedTo n of
                      None \<Rightarrow> True
                    | Some t \<Rightarrow>
                        (let nextNoteStart = NoteInfo.start n + NoteInfo.length n;
                             currentMeasure = Math_floor (measureNumberAtQ mi (JianpuBlock.start b));
                             nextNoteMeasure = Math_floor (measureNumberAtQ mi nextNoteStart)
                         in currentMeasure = nextNoteMeasure \<and> NoteInfo.length (h ! t) \<ge> 1))
              else False))"

definition calculateRenderProperties :: "MeasuresInfo \<Rightarrow> store \<Rightarrow> JianpuBlock \<Rightarrow> JianpuBlock" where
  "calculateRenderProperties mi h b =
     (let b0 = b\<lparr> durationLines := None, augmentationDots := None, augmentationDash := None \<rparr>;
          blockLength = JianpuBlock.length b;
          dotted = (allowDottedRests mi \<or> blockNotes b \<noteq> [])
      in if isSafeZero blockLength \<or> blockLength < 0 then b0
         else if dotted \<and> isSafeZero (blockLength - 3 / 2)
         then b0\<lparr> augmentationDots := Some 1 \<rparr>
         else if dotted \<and> isSafeZero (blockLength - 3 / 4)
         then b0\<lparr> durationLines := Some 1, augmentationDots := Some 1 \<rparr>
         else if dotted \<and> isSafeZero (blockLength - 3 / 8)
         then b0\<lparr> durationLines := Some 2, augmentationDots := Some 1 \<rparr>
         else
           (let b1 = (if dotted \<and> isSafeZero (blockLength - 3)
                      then b0\<lparr> augmentationDots := Some 1 \<rparr> else b0);
                b2 = b1\<lparr> durationLines := Some (linesFor blockLength),
                         augmentationDash := Some False \<rparr>
            in case blockNotes b of
                 [currentNote] \<Rightarrow>
                   (if continuationDash mi h b currentNote
                    then b2\<lparr> augmentationDash := Some True \<rparr> else b2)
               | _ \<Rightarrow> b2))"

section \<open>The block map\<close>

text \<open>
  A \<open>Map<number, JianpuBlock>\<close> is an association list in insertion order; a key is
  looked up by equality of numbers, and \<open>set\<close> replaces the value of a key that is
  present and appends a new key at the end.
\<close>

type_synonym JianpuBlockMap = "(rat \<times> JianpuBlock) list"

fun mapGet :: "JianpuBlockMap \<Rightarrow> rat \<Rightarrow> JianpuBlock option" where
  "mapGet [] k = None"
| "mapGet ((k', v) # m) k = (if k' = k then Some v else mapGet m k)"

fun mapSet :: "JianpuBlockMap \<Rightarrow> rat \<Rightarrow> JianpuBlock \<Rightarrow> JianpuBlockMap" where
  "mapSet [] k v = [(k, v)]"
| "mapSet ((k', v') # m) k v = (if k' = k then (k, v) # m else (k', v') # mapSet m k v)"

definition mergeToMap :: "JianpuBlockMap \<Rightarrow> store \<Rightarrow> JianpuBlock \<Rightarrow> JianpuBlockMap \<times> store" where
  "mergeToMap m h b =
     (case mapGet m (JianpuBlock.start b) of
        Some existingBlock \<Rightarrow>
          (case addNotes h existingBlock (blockNotes b) of
             (e, h') \<Rightarrow>
               (mapSet m (JianpuBlock.start b)
                  (if JianpuBlock.measureNumber b \<noteq> 0
                   then e\<lparr> JianpuBlock.measureNumber := JianpuBlock.measureNumber b \<rparr> else e),
                h'))
      | None \<Rightarrow> (mapSet m (JianpuBlock.start b) b, h))"

section \<open>The model (jianpu\_model)\<close>

definition createJianpuNote :: "NoteInfo \<Rightarrow> int \<Rightarrow> JianpuNote" where
  "createJianpuNote note k =
     (let details = mapMidiToJianpu (pitch note) k
      in \<lparr> NoteInfo.start = NoteInfo.start note, length = NoteInfo.length note,
           pitch = pitch note, intensity = intensity note,
           jianpuNumber = Details.jianpuNumber details,
           octaveDot = Details.octaveDot details,
           accidental = Details.accidental details,
           tiedFrom = None, tiedTo = None \<rparr>)"

text \<open>The state of the first loop of \<open>infoToBlocks\<close>.\<close>

record GroupState =
  rawBlocks :: JianpuBlockMap
  lastNoteEndTime :: rat
  noteStore :: store

text \<open>The body of \<open>notes.forEach\<close>: a rest for a gap, then the note into its block.\<close>

definition groupNote :: "MeasuresInfo \<Rightarrow> GroupState \<Rightarrow> NoteInfo \<Rightarrow> GroupState" where
  "groupNote mi st note =
     (let noteStart = NoteInfo.start note;
          mNumber = measureNumberAtQ mi noteStart;
          raw1 = (if noteStart > lastNoteEndTime st + eps
                  then (let restStart = lastNoteEndTime st;
                            restLength = noteStart - restStart;
                            restMeasureNum = measureNumberAtQ mi restStart
                        in mapSet (rawBlocks st) restStart
                             (newJianpuBlock restStart restLength [] restMeasureNum))
                  else rawBlocks st);
          keySignatureKey = keySignatureAtQ mi noteStart;
          jianpuNote = List.length (noteStore st);
          h1 = noteStore st @ [createJianpuNote note keySignatureKey];
          (block, raw2) = (case mapGet raw1 noteStart of
                             Some blk \<Rightarrow> (blk, raw1)
                           | None \<Rightarrow>
                               (let blk = newJianpuBlock noteStart 0 [] mNumber
                                in (blk, mapSet raw1 noteStart blk)))
      in case addNote h1 block jianpuNote of
           (ok, block', h2) \<Rightarrow>
             \<lparr> rawBlocks = mapSet raw2 noteStart block',
               lastNoteEndTime = max (lastNoteEndTime st) (noteStart + JianpuBlock.length block'),
               noteStore = h2 \<rparr>)"

text \<open>The rest after the last note, when the score goes on beyond it.\<close>

definition finalRest :: "MeasuresInfo \<Rightarrow> rat \<Rightarrow> GroupState \<Rightarrow> JianpuBlockMap" where
  "finalRest mi lastQ st =
     (if lastQ > lastNoteEndTime st + eps
      then (let restStart = lastNoteEndTime st;
                restLength = lastQ - restStart
            in if restLength > eps
               then mapSet (rawBlocks st) restStart
                      (newJianpuBlock restStart restLength [] (measureNumberAtQ mi restStart))
               else rawBlocks st)
      else rawBlocks st)"

text \<open>
  The \<open>do ... while\<close> loop that cuts a block into standard symbols.  The loops over the
  blocks carry fuel; \<open>None\<close> is the loop not having ended within it.
\<close>

fun symbolLoop ::
  "nat \<Rightarrow> MeasuresInfo \<Rightarrow> JianpuBlockMap \<Rightarrow> store \<Rightarrow> JianpuBlock \<Rightarrow> (JianpuBlockMap \<times> store) option" where
  "symbolLoop 0 mi m h blockToSymbolSplit = None"
| "symbolLoop (Suc fuel) mi m h blockToSymbolSplit =
     (case splitToStandardSymbol mi h blockToSymbolSplit of
        (remainingSymbolSplit, b1, h1) \<Rightarrow>
          (case mergeToMap m h1 b1 of
             (m1, h2) \<Rightarrow>
               (case remainingSymbolSplit of
                  Some r \<Rightarrow> symbolLoop fuel mi m1 h2 r
                | None \<Rightarrow> Some (m1, h2))))"

text \<open>
  The \<open>while\<close> loop over the queue.  The set \<open>processedBlocksForSplitting\<close> of the source
  is only written to and tested in an empty statement, so it is left out.
\<close>

fun processQueue ::
  "nat \<Rightarrow> MeasuresInfo \<Rightarrow> JianpuBlockMap \<Rightarrow> store \<Rightarrow> JianpuBlock list \<Rightarrow> (JianpuBlockMap \<times> store) option" where
  "processQueue fuel mi m h [] = Some (m, h)"
| "processQueue 0 mi m h (currentBlock # queue) = None"
| "processQueue (Suc fuel) mi m h (currentBlock # queue) =
     (case splitToBeat mi h currentBlock of
        (Some remainingBeatSplit, b1, h1) \<Rightarrow>
          (case mergeToMap m h1 b1 of
             (m1, h2) \<Rightarrow> processQueue fuel mi m1 h2 (remainingBeatSplit # queue))
      | (None, b1, h1) \<Rightarrow>
          (case symbolLoop (Suc fuel) mi m h1 b1 of
             Some (m1, h2) \<Rightarrow> processQueue fuel mi m1 h2 queue
           | None \<Rightarrow> None))"

text \<open>The blocks of a map in ascending order of their keys.\<close>

definition sortedBlocks :: "JianpuBlockMap \<Rightarrow> JianpuBlock list" where
  "sortedBlocks m = map snd (sort_key fst m)"

definition infoToBlocks ::
  "nat \<Rightarrow> MeasuresInfo \<Rightarrow> rat \<Rightarrow> NoteInfo list \<Rightarrow> (JianpuBlockMap \<times> store) option" where
  "infoToBlocks fuel mi lastQ ns =
     (let st = foldl (groupNote mi) \<lparr> rawBlocks = [], lastNoteEndTime = 0, noteStore = [] \<rparr> ns;
          raw = finalRest mi lastQ st
      in case processQueue fuel mi [] (noteStore st) (sortedBlocks raw) of
           Some (m, h) \<Rightarrow> Some (map (\<lambda>(k, b). (k, calculateRenderProperties mi h b)) m, h)
         | None \<Rightarrow> None)"

record JianpuModel =
  jianpuInfo :: JianpuInfo
  modelMeasures :: MeasuresInfo
  jianpuBlockMap :: JianpuBlockMap
  lastQ :: rat
  modelStore :: store

text \<open>
  \<open>update\<close>, which the constructor calls: the notes and the three lists are sorted by
  start (the sort of the source is stable), defaults are supplied, the measure index is
  built and the blocks are made.
\<close>

definition update :: "nat \<Rightarrow> JianpuInfo \<Rightarrow> int option \<Rightarrow> JianpuModel option" where
  "update fuel info defaultKey =
     (let ns = sort_key NoteInfo.start (notes_of info);
          lq = foldl (\<lambda>q note. max q (NoteInfo.start note + NoteInfo.length note)) 0 ns + eps;
          tps0 = sort_key TempoInfo.start (if tempos info \<noteq> [] then tempos info else [DEFAULT_TEMPO]);
          tps = (if TempoInfo.start (tps0 ! 0) > eps
                 then DEFAULT_TEMPO\<lparr> TempoInfo.start := 0 \<rparr> # tps0 else tps0);
          startingKey = (case defaultKey of
                           Some k \<Rightarrow> \<lparr> KeySignatureInfo.start = 0, key = k \<rparr>
                         | None \<Rightarrow> DEFAULT_KEY_SIGNATURE);
          kss0 = sort_key KeySignatureInfo.start
                   (if keySignatures info \<noteq> [] then keySignatures info else [startingKey]);
          kss = (if KeySignatureInfo.start (kss0 ! 0) > eps
                 then startingKey\<lparr> KeySignatureInfo.start := 0 \<rparr> # kss0 else kss0);
          tss0 = sort_key TimeSignatureInfo.start
                   (if timeSignatures info \<noteq> [] then timeSignatures info else [DEFAULT_TIME_SIGNATURE]);
          tss = (if TimeSignatureInfo.start (tss0 ! 0) > eps
                 then DEFAULT_TIME_SIGNATURE\<lparr> TimeSignatureInfo.start := 0 \<rparr> # tss0 else tss0);
          info' = \<lparr> notes_of = ns, tempos = tps, keySignatures = kss, timeSignatures = tss \<rparr>;
          mi = newMeasuresInfo info' lq
      in case infoToBlocks fuel mi lq ns of
           Some (m, h) \<Rightarrow>
             Some \<lparr> jianpuInfo = info', modelMeasures = mi, jianpuBlockMap = m, lastQ = lq,
                    modelStore = h \<rparr>
         | None \<Rightarrow> None)"

definition getTotalDuration :: "JianpuModel \<Rightarrow> rat" where
  "getTotalDuration model = lastQ model"

section \<open>Notes of a block\<close>



section \<open>Example data\<close>

text \<open>A note of pitch 68 in C major (degree 6 with a flat), not tied.\<close>

definition exampleNote :: "rat \<Rightarrow> rat \<Rightarrow> JianpuNote" where
  "exampleNote s l =
     \<lparr> NoteInfo.start = s, length = l, pitch = 68, intensity = 127,
       jianpuNumber = 6, octaveDot = 0, accidental = 2, tiedFrom = None, tiedTo = None \<rparr>"

text \<open>A measure index without chunks: its queries answer with the defaults.\<close>

definition emptyMeasures :: MeasuresInfo where
  "emptyMeasures = \<lparr> measuresInfo = [], allowDottedRests = True \<rparr>"

text \<open>A note of the given pitch, start and length in C major, as \<open>createJianpuNote\<close> makes it.\<close>

definition pitchedNote :: "int \<Rightarrow> rat \<Rightarrow> rat \<Rightarrow> JianpuNote" where
  "pitchedNote p s l =
     createJianpuNote \<lparr> NoteInfo.start = s, length = l, pitch = p, intensity = 127 \<rparr> 0"



section \<open>Scores with a single signature\<close>

text \<open>A score with one tempo, one key signature and one time signature, all at time 0.\<close>

definition singleSignature :: "JianpuInfo \<Rightarrow> bool" where
  "singleSignature info =
     (List.length (tempos info) = 1 \<and> TempoInfo.start (tempos info ! 0) = 0
    \<and> List.length (keySignatures info) = 1 \<and> KeySignatureInfo.start (keySignatures info ! 0) = 0
    \<and> List.length (timeSignatures info) = 1 \<and> TimeSignatureInfo.start (timeSignatures info ! 0) = 0)"

text \<open>A chunk that carries the signatures of such a score.\<close>

definition uniformChunk :: "JianpuInfo \<Rightarrow> MeasureInfo \<Rightarrow> bool" where
  "uniformChunk info c =
     (measureLength c = getMeasureLength (timeSignatures info ! 0)
    \<and> MeasureInfo.measureNumber c = 1 + MeasureInfo.start c / getMeasureLength (timeSignatures info ! 0)
    \<and> timeSignature c = timeSignatures info ! 0
    \<and> keySignature c = keySignatures info ! 0)"

text \<open>The state of the constructor's loop of such a score after the first pass.\<close>

definition fillInv :: "JianpuInfo \<Rightarrow> FillState \<Rightarrow> bool" where
  "fillInv info st =
     (tempoIndex st = 1 \<and> keyIndex st = 1 \<and> timeIndex st = 1
    \<and> currentKeySignature st = keySignatures info ! 0
    \<and> currentTimeSignature st = timeSignatures info ! 0
    \<and> measureNumberAtCurrentTimeSignature st = 1
    \<and> currentMeasureLength st = getMeasureLength (timeSignatures info ! 0)
    \<and> timeOfLastTimeSigChange st = 0
    \<and> chunks st \<noteq> [] \<and> list_all (uniformChunk info) (chunks st))"

definition fillStart :: "JianpuInfo \<Rightarrow> FillState" where
  "fillStart info =
     \<lparr> loopQuarters = 0, tempoIndex = 0, keyIndex = 0, timeIndex = 0,
       currentTempo = tempos info ! 0,
       currentKeySignature = keySignatures info ! 0,
       currentTimeSignature = timeSignatures info ! 0,
       measureNumberAtCurrentTimeSignature = 1,
       currentMeasureLength = getMeasureLength (timeSignatures info ! 0),
       timeOfLastTimeSigChange = TimeSignatureInfo.start (timeSignatures info ! 0),
       chunks = [] \<rparr>"

text \<open>Two measure indexes that answer every query of the block engine alike.\<close>

definition sameQueries :: "MeasuresInfo \<Rightarrow> MeasuresInfo \<Rightarrow> bool" where
  "sameQueries mi mi' =
     ((\<forall>s. measureNumberAtQ mi s = measureNumberAtQ mi' s)
    \<and> (\<forall>s. measureLengthAtQ mi s = measureLengthAtQ mi' s)
    \<and> (\<forall>s. timeSignatureAtQ mi s = timeSignatureAtQ mi' s)
    \<and> (\<forall>s. keySignatureAtQ mi s = keySignatureAtQ mi' s)
    \<and> allowDottedRests mi = allowDottedRests mi')"

section \<open>Example scores\<close>

text \<open>What a claim says of a block: start, length, rest or not, lines, dots, dash.\<close>

definition blockSummary ::
  "JianpuBlock \<Rightarrow> rat \<times> rat \<times> bool \<times> nat option \<times> nat option \<times> bool option" where
  "blockSummary b =
     (JianpuBlock.start b, JianpuBlock.length b, blockNotes b = [],
      durationLines b, augmentationDots b, augmentationDash b)"

definition dottedNotes :: "NoteInfo list" where
  "dottedNotes = [\<lparr> NoteInfo.start = 0, length = 3, pitch = 67, intensity = 127 \<rparr>,
                  \<lparr> NoteInfo.start = 15 / 4, length = 1 / 4, pitch = 67, intensity = 127 \<rparr>]"

definition dottedScore :: JianpuInfo where
  "dottedScore =
     \<lparr> notes_of = dottedNotes, tempos = [], keySignatures = [],
       timeSignatures = [\<lparr> TimeSignatureInfo.start = 0, numerator = 4, denominator = 4 \<rparr>] \<rparr>"

text \<open>A measure index of one chunk in 4/4 and C major.\<close>

definition plainMeasures :: MeasuresInfo where
  "plainMeasures =
     \<lparr> measuresInfo =
         [\<lparr> MeasureInfo.start = 0, measureNumber = 1, measureLength = 4,
            tempo = DEFAULT_TEMPO, keySignature = DEFAULT_KEY_SIGNATURE,
            timeSignature = DEFAULT_TIME_SIGNATURE,
            tempoChange = True, keyChange = True, timeChange = True \<rparr>],
       allowDottedRests = True \<rparr>"

text \<open>The score information that \<open>update\<close> makes of a score without signatures.\<close>

definition defaultSignatures :: "NoteInfo list \<Rightarrow> JianpuInfo" where
  "defaultSignatures ns =
     \<lparr> notes_of = ns, tempos = [DEFAULT_TEMPO], keySignatures = [DEFAULT_KEY_SIGNATURE],
       timeSignatures = [DEFAULT_TIME_SIGNATURE] \<rparr>"

text \<open>What a claim says of the ties of a note: its pitch and the notes it is tied from and to.\<close>

definition tieSummary :: "JianpuNote \<Rightarrow> int \<times> ref option \<times> ref option" where
  "tieSummary n = (pitch n, tiedFrom n, tiedTo n)"

text \<open>Equal within the tolerance of the source.\<close>

definition near :: "rat \<Rightarrow> rat \<Rightarrow> bool" where
  "near x y = isSafeZero (x - y)"

text \<open>What a claim says of a chord: start, length and the pitches of the notes of a block.\<close>

definition blockPitches :: "store \<Rightarrow> JianpuBlock \<Rightarrow> rat \<times> rat \<times> int list" where
  "blockPitches h b =
     (JianpuBlock.start b, JianpuBlock.length b, map (\<lambda>r. pitch (h ! r)) (blockNotes b))"

text \<open>A chord of a half note and a quarter note, the longer note first.\<close>

definition chordNotes :: "NoteInfo list" where
  "chordNotes = [\<lparr> NoteInfo.start = 0, length = 2, pitch = 60, intensity = 127 \<rparr>,
                 \<lparr> NoteInfo.start = 0, length = 1, pitch = 64, intensity = 127 \<rparr>]"

definition chordScore :: JianpuInfo where
  "chordScore = \<lparr> notes_of = chordNotes, tempos = [], keySignatures = [], timeSignatures = [] \<rparr>"

text \<open>The same chord, the shorter note first.\<close>

definition chordNotesShortFirst :: "NoteInfo list" where
  "chordNotesShortFirst = [\<lparr> NoteInfo.start = 0, length = 1, pitch = 64, intensity = 127 \<rparr>,
                           \<lparr> NoteInfo.start = 0, length = 2, pitch = 60, intensity = 127 \<rparr>]"

definition chordScoreShortFirst :: JianpuInfo where
  "chordScoreShortFirst =
     \<lparr> notes_of = chordNotesShortFirst, tempos = [], keySignatures = [], timeSignatures = [] \<rparr>"

section \<open>Properties of the pitch mapper\<close>

lemma Math_round_twelfth: "Math_round (of_int d / 12) = (d + 6) div 12"
proof -
  have "(of_int d :: rat) / 12 + 1 / 2 = of_int (d + 6) / of_int 12" by simp
  then have "Math_round (of_int d / 12) = \<lfloor>(of_int (d + 6) :: rat) / of_int 12\<rfloor>"
    unfolding Math_round_def by presburger
  then show ?thesis by (simp only: floor_divide_of_int_eq)
qed

lemma Math_floor_twelfth: "Math_floor (of_int d / 12) = d div 12"
proof -
  have "Math_floor (of_int d / 12) = \<lfloor>(of_int d :: rat) / of_int 12\<rfloor>"
    unfolding Math_floor_def by simp
  then show ?thesis by (simp only: floor_divide_of_int_eq)
qed

lemma tonicMidiRef_key:
  assumes "0 \<le> k" "k \<le> 11"
  shows "tonicMidiRef k = (if k = 0 then 60 else 48 + k)"
  using assms by (auto simp: tonicMidiRef_def js_rem_def MIDDLE_C_MIDI_def Let_def)

lemma mod_twelve_shift: "((x::int) + 12) mod 12 = x mod 12"
  by simp

lemma div_twelve_shift: "((x::int) + 12) div 12 = x div 12 + 1"
  by simp

lemma interval_mod: "interval p k = (p - tonicMidiRef k) mod 12"
proof -
  define d where "d = p - tonicMidiRef k"
  have "interval p k = js_rem (d - ((d + 6) div 12) * 12 + 12) 12"
    unfolding interval_def Let_def d_def Math_round_twelfth by (simp add: algebra_simps)
  moreover have "0 \<le> d - ((d + 6) div 12) * 12 + 12" by simp
  ultimately have "interval p k = (d - ((d + 6) div 12) * 12 + 12) mod 12"
    by (simp add: js_rem_def)
  also have "\<dots> = d mod 12"
    by (simp add: mod_diff_eq[symmetric] mod_add_eq[symmetric])
  finally show ?thesis by (simp add: d_def)
qed

lemma interval_key:
  assumes "0 \<le> k" "k \<le> 11"
  shows "interval p k = (p - k) mod 12"
proof (cases "k = 0")
  case True
  have "p - 60 = p + 12 * (- 5)" by simp
  then have "(p - 60) mod 12 = p mod 12" by (metis mod_mult_self2)
  with True show ?thesis by (simp add: interval_mod tonicMidiRef_key)
next
  case False
  have "p - (48 + k) = (p - k) + 12 * (- 4)" by simp
  then have "(p - (48 + k)) mod 12 = (p - k) mod 12" by (metis mod_mult_self2)
  with False assms show ?thesis by (simp add: interval_mod tonicMidiRef_key)
qed

lemma mapMidiToJianpu_closed:
  "mapMidiToJianpu p k =
     (let i = (p - tonicMidiRef k) mod 12;
          (num, acc) =
            (case MAJOR_SCALE_INTERVALS i of
               Some d \<Rightarrow> (d, 0)
             | None \<Rightarrow>
                 (case chromatic i of
                    (Some d, a) \<Rightarrow> (d, a)
                  | (None, a) \<Rightarrow> (1, 1)))
      in \<lparr> Details.jianpuNumber = num,
           octaveDot = (p - tonicMidiRef k) div 12,
           accidental = acc \<rparr>)"
  unfolding mapMidiToJianpu_def interval_mod Math_floor_twelfth ..

lemma interval_range: "0 \<le> interval p k \<and> interval p k < 12"
  by (simp add: interval_mod)

lemma table_agrees:
  assumes "0 \<le> i" "i < 12"
  shows "(case MAJOR_SCALE_INTERVALS i of
            Some d \<Rightarrow> (d, 0)
          | None \<Rightarrow>
              (case chromatic i of
                 (Some d, a) \<Rightarrow> (d, a)
               | (None, a) \<Rightarrow> (1, 1))) = specDegreeTable i"
proof -
  have "i = 0 \<or> i = 1 \<or> i = 2 \<or> i = 3 \<or> i = 4 \<or> i = 5 \<or> i = 6 \<or> i = 7
      \<or> i = 8 \<or> i = 9 \<or> i = 10 \<or> i = 11"
  proof -
    from assms have "i \<in> set [0..11]" by simp
    then show ?thesis by (simp add: upto_rec1)
  qed
  then show ?thesis
    by (elim disjE) (simp_all add: MAJOR_SCALE_INTERVALS_def chromatic_def specDegreeTable_def)
qed

text \<open>
  C4.  For a key in 0..11 the interval computed by the mapper is \<open>(p - k) mod 12\<close>, and the
  degree and accidental returned are those of the specification's table at that interval:
  the diatonic intervals give the degrees 1 to 7 without accidental, interval 1 gives
  degree 1 sharp, 6 gives 4 sharp, 3 gives 3 flat, 8 gives 6 flat and 10 gives 7 flat.
\<close>

theorem mapMidiToJianpu_table:
  assumes "0 \<le> k" "k \<le> 11"
  shows "interval p k = (p - k) mod 12
       \<and> degreeAccidental p k = specDegreeTable (interval p k)"
proof -
  have "degreeAccidental p k = specDegreeTable (interval p k)"
    using table_agrees [OF conjunct1 [OF interval_range] conjunct2 [OF interval_range], of p k]
    by (simp add: degreeAccidental_def mapMidiToJianpu_def Let_def split: prod.splits)
  with interval_key [OF assms] show ?thesis by simp
qed

theorem mapMidiToJianpu_table_witness:
  "interval 66 7 = 11 \<and> degreeAccidental 66 7 = (7, 0)
 \<and> interval 61 0 = 1 \<and> degreeAccidental 61 0 = (1, 1)
 \<and> interval 58 5 = 5 \<and> degreeAccidental 58 5 = (4, 0)"
  using mapMidiToJianpu_table [of 7 66] mapMidiToJianpu_table [of 0 61]
    mapMidiToJianpu_table [of 5 58]
  by (simp add: specDegreeTable_def)

text \<open>
  C5 as stated fails: in key 0 the pitch 63 is spelled as degree 3 with a flat, not as
  degree 2 with a sharp.
\<close>

theorem chromatic_scale_counterexample:
  "degreeAccidental 63 0 = (3, 2) \<and> degreeAccidental 63 0 \<noteq> (2, 1)"
  by (simp add: degreeAccidental_def mapMidiToJianpu_closed tonicMidiRef_def js_rem_def
      MIDDLE_C_MIDI_def MAJOR_SCALE_INTERVALS_def chromatic_def Let_def)

text \<open>
  C5 amended.  In key 0 the pitches 60 to 71 give, in order, 1, 1 sharp, 2, 3 flat, 3, 4,
  4 sharp, 5, 6 flat, 6, 7 flat, 7.
\<close>

theorem chromatic_scale_key0:
  "map (\<lambda>p. degreeAccidental p 0) [60, 61, 62, 63, 64, 65, 66, 67, 68, 69, 70, 71] =
     [(1, 0), (1, 1), (2, 0), (3, 2), (3, 0), (4, 0), (4, 1), (5, 0), (6, 2), (6, 0),
      (7, 2), (7, 0)]"
  by (simp add: degreeAccidental_def mapMidiToJianpu_closed tonicMidiRef_def js_rem_def
      MIDDLE_C_MIDI_def MAJOR_SCALE_INTERVALS_def chromatic_def Let_def)

text \<open>
  C6.  Raising the pitch by an octave keeps the degree and the accidental and adds one to
  the octave dots; this holds for every key, so also for the keys 0..11.
\<close>

theorem mapMidiToJianpu_octave:
  "Details.jianpuNumber (mapMidiToJianpu (p + 12) k) = Details.jianpuNumber (mapMidiToJianpu p k)
 \<and> Details.accidental (mapMidiToJianpu (p + 12) k) = Details.accidental (mapMidiToJianpu p k)
 \<and> Details.octaveDot (mapMidiToJianpu (p + 12) k) = Details.octaveDot (mapMidiToJianpu p k) + 1"
proof -
  have e: "p + 12 - tonicMidiRef k = (p - tonicMidiRef k) + 12" by simp
  show ?thesis
    unfolding mapMidiToJianpu_closed e mod_twelve_shift div_twelve_shift
    by (simp add: Let_def split: prod.splits)
qed

text \<open>
  C7 as stated fails: for key 1 the reference tonic is 49, eleven semitones below middle C,
  although 61 has the same pitch class and is one semitone from it.
\<close>

theorem tonicMidiRef_counterexample:
  "tonicMidiRef 1 = 49 \<and> (61::int) mod 12 = 1
 \<and> \<bar>61 - MIDDLE_C_MIDI\<bar> < \<bar>tonicMidiRef 1 - MIDDLE_C_MIDI\<bar>"
  by (simp add: tonicMidiRef_def js_rem_def MIDDLE_C_MIDI_def Let_def)

text \<open>
  C7 amended.  For every key in 0..11 the reference tonic is the highest pitch of the
  tonic's pitch class that is not above middle C (60 for key 0, 48 + k otherwise); the
  octave dots are 0 at that pitch, and for every pitch they are the floor of
  (p - tonicReference) / 12.
\<close>

theorem tonicMidiRef_octaveDot:
  assumes "0 \<le> k" "k \<le> 11"
  shows "tonicMidiRef k mod 12 = k
       \<and> MIDDLE_C_MIDI - 12 < tonicMidiRef k \<and> tonicMidiRef k \<le> MIDDLE_C_MIDI
       \<and> Details.octaveDot (mapMidiToJianpu (tonicMidiRef k) k) = 0
       \<and> Details.octaveDot (mapMidiToJianpu p k) = \<lfloor>(of_int (p - tonicMidiRef k) :: rat) / 12\<rfloor>"
proof -
  have "48 + k = k + 12 * 4" by simp
  then have "(48 + k) mod 12 = k mod 12" by (metis mod_mult_self2)
  then have "tonicMidiRef k mod 12 = k"
    using assms by (auto simp: tonicMidiRef_key)
  moreover have "MIDDLE_C_MIDI - 12 < tonicMidiRef k \<and> tonicMidiRef k \<le> MIDDLE_C_MIDI"
    using assms by (auto simp: tonicMidiRef_key MIDDLE_C_MIDI_def)
  moreover have "Details.octaveDot (mapMidiToJianpu q k) = \<lfloor>(of_int (q - tonicMidiRef k) :: rat) / 12\<rfloor>"
    for q
    by (simp add: mapMidiToJianpu_def Let_def Math_floor_def split: prod.splits)
  ultimately show ?thesis by simp
qed

theorem tonicMidiRef_octaveDot_witness:
  "tonicMidiRef 7 = 55 \<and> Details.octaveDot (mapMidiToJianpu 55 7) = 0
 \<and> Details.octaveDot (mapMidiToJianpu 54 7) = - 1"
proof -
  have r: "tonicMidiRef 7 = 55"
    by (simp add: tonicMidiRef_def js_rem_def MIDDLE_C_MIDI_def Let_def)
  have f: "\<lfloor>(of_int (- 1) :: rat) / of_int 12\<rfloor> = - 1"
    by (simp only: floor_divide_of_int_eq)
  from tonicMidiRef_octaveDot [of 7 54] r f show ?thesis by simp
qed

section \<open>Splitting notes\<close>

lemma splitJianpuNote_null:
  assumes "q \<le> NoteInfo.start (h ! r) \<or> q \<ge> NoteInfo.start (h ! r) + NoteInfo.length (h ! r)
           \<or> isSafeZero (NoteInfo.start (h ! r) + NoteInfo.length (h ! r) - q)"
  shows "splitJianpuNote h r q = (None, h)"
  using assms by (auto simp: splitJianpuNote_def Let_def)

lemma split_null:
  assumes "q \<le> JianpuBlock.start b \<or> q \<ge> JianpuBlock.start b + JianpuBlock.length b
           \<or> isSafeZero (JianpuBlock.start b + JianpuBlock.length b - q)"
  shows "split mi h b q = (None, b, h)"
  using assms by (auto simp: split_def Let_def)


text \<open>
  C9.  A split point at or before the start of a block, or at or after its end, makes
  \<open>split\<close> return null with the block and every note as they were; and
  \<open>splitJianpuNote\<close> returns null with the store as it was when the point is not strictly
  inside the span of the note.
\<close>

theorem split_outside_unchanged:
  "(q \<le> JianpuBlock.start b \<or> q \<ge> JianpuBlock.start b + JianpuBlock.length b
      \<longrightarrow> split mi h b q = (None, b, h))
 \<and> (q \<le> NoteInfo.start (h ! r) \<or> q \<ge> NoteInfo.start (h ! r) + NoteInfo.length (h ! r)
      \<longrightarrow> splitJianpuNote h r q = (None, h))"
  using split_null [of q b mi h] splitJianpuNote_null [of q h r] by blast

theorem split_outside_unchanged_witness:
  "split emptyMeasures [exampleNote 1 2] (newJianpuBlock 1 2 [0] 1) 3
     = (None, newJianpuBlock 1 2 [0] 1, [exampleNote 1 2])
 \<and> splitJianpuNote [exampleNote 1 2] 0 1 = (None, [exampleNote 1 2])"
proof -
  have a: "3 \<ge> JianpuBlock.start (newJianpuBlock 1 2 [0] 1) + JianpuBlock.length (newJianpuBlock 1 2 [0] 1)"
    by (simp add: newJianpuBlock_def)
  have b: "1 \<le> NoteInfo.start ([exampleNote 1 2] ! 0)"
    by (simp add: exampleNote_def)
  from split_outside_unchanged
         [of 3 "newJianpuBlock 1 2 [0] 1" emptyMeasures "[exampleNote 1 2]" 0] a
  have 1: "split emptyMeasures [exampleNote 1 2] (newJianpuBlock 1 2 [0] 1) 3
     = (None, newJianpuBlock 1 2 [0] 1, [exampleNote 1 2])" by blast
  from split_outside_unchanged
         [of 1 "newJianpuBlock 1 2 [0] 1" emptyMeasures "[exampleNote 1 2]" 0] b
  have 2: "splitJianpuNote [exampleNote 1 2] 0 1 = (None, [exampleNote 1 2])" by blast
  from 1 2 show ?thesis by simp
qed



section \<open>The block map\<close>























lemma pitchedNote_fields [simp]:
  "NoteInfo.start (pitchedNote p s l) = s" "NoteInfo.length (pitchedNote p s l) = l"
  "pitch (pitchedNote p s l) = p" "tiedFrom (pitchedNote p s l) = None"
  "tiedTo (pitchedNote p s l) = None"
  by (simp_all add: pitchedNote_def createJianpuNote_def Let_def)




section \<open>The measure index of a score with a single signature\<close>

lemma floor_rat_numeral: "\<lfloor>(numeral a :: rat) / numeral b\<rfloor> = numeral a div numeral b"
  by (metis floor_divide_of_int_eq of_int_numeral)

lemma floor_rat_neg_numeral:
  "\<lfloor>- ((numeral a :: rat) / numeral b)\<rfloor> = - numeral a div numeral b"
  by (metis divide_minus_left floor_divide_of_int_eq of_int_neg_numeral of_int_numeral)

lemma Math_round_1000: "Math_round 1000 = 1000"
  by (simp add: Math_round_def floor_rat_numeral)

lemma fillInv_first:
  assumes "singleSignature info"
  shows "fillInv info (fillStep info (fillStart info))"
    and "loopQuarters (fillStep info (fillStart info)) = MIN_RESOLUTION"
  using assms
  by (simp_all add: singleSignature_def fillInv_def fillStep_def fillStart_def Let_def
        MIN_RESOLUTION_def uniformChunk_def Math_round_1000)

lemma fillStep_no_change:
  assumes "\<not> tempoIndex st < List.length (tempos info)"
      and "\<not> keyIndex st < List.length (keySignatures info)"
      and "\<not> timeIndex st < List.length (timeSignatures info)"
  shows "fillStep info st =
     st\<lparr> chunks := chunks st @
            [\<lparr> MeasureInfo.start = loopQuarters st,
               measureNumber = measureNumberAtCurrentTimeSignature st
                 + (loopQuarters st - timeOfLastTimeSigChange st) / currentMeasureLength st,
               measureLength = currentMeasureLength st, tempo = currentTempo st,
               keySignature = currentKeySignature st,
               timeSignature = currentTimeSignature st,
               tempoChange = False, keyChange = False, timeChange = False \<rparr>],
         loopQuarters := loopQuarters st + MIN_RESOLUTION \<rparr>"
  using assms by (simp add: fillStep_def Let_def)

lemma fillInv_step:
  assumes "singleSignature info" "fillInv info st"
  shows "fillInv info (fillStep info st)"
proof -
  have i: "\<not> tempoIndex st < List.length (tempos info)"
          "\<not> keyIndex st < List.length (keySignatures info)"
          "\<not> timeIndex st < List.length (timeSignatures info)"
    using assms by (simp_all add: singleSignature_def fillInv_def)
  show ?thesis
    unfolding fillStep_no_change [OF i]
    using assms(2) by (simp add: fillInv_def uniformChunk_def)
qed

lemma fillInv_loop: "singleSignature info \<Longrightarrow> fillInv info st \<Longrightarrow> fillInv info (fillLoop info endQ st)"
proof (induction info endQ st rule: fillLoop.induct)
  case (1 info endQ st)
  show ?case
  proof (cases "loopQuarters st < endQ")
    case True
    have "fillInv info (fillStep info st)" using 1(2,3) by (rule fillInv_step)
    with 1(1) [OF True 1(2)] have "fillInv info (fillLoop info endQ (fillStep info st))" .
    moreover have "fillLoop info endQ st = fillLoop info endQ (fillStep info st)"
      using True by (subst fillLoop.simps) simp
    ultimately show ?thesis by simp
  next
    case False
    then have "fillLoop info endQ st = st" by (subst fillLoop.simps) simp
    with 1(3) show ?thesis by simp
  qed
qed

lemma newMeasuresInfo_uniform:
  assumes "singleSignature info" "0 < endQ"
  shows "measuresInfo (newMeasuresInfo info endQ) \<noteq> []"
    and "list_all (uniformChunk info) (measuresInfo (newMeasuresInfo info endQ))"
    and "allowDottedRests (newMeasuresInfo info endQ)"
proof -
  have "fillLoop info endQ (fillStart info) = fillLoop info endQ (fillStep info (fillStart info))"
    using assms(2) by (subst fillLoop.simps) (simp add: fillStart_def)
  moreover have "fillInv info (fillLoop info endQ (fillStep info (fillStart info)))"
    using assms(1) fillInv_first(1) [OF assms(1)] by (rule fillInv_loop)
  ultimately have "fillInv info (fillLoop info endQ (fillStart info))" by simp
  moreover have "measuresInfo (newMeasuresInfo info endQ) = chunks (fillLoop info endQ (fillStart info))"
    by (simp add: newMeasuresInfo_def fillStart_def Let_def)
  ultimately show "measuresInfo (newMeasuresInfo info endQ) \<noteq> []"
    and "list_all (uniformChunk info) (measuresInfo (newMeasuresInfo info endQ))"
    by (simp_all add: fillInv_def)
  show "allowDottedRests (newMeasuresInfo info endQ)"
    by (simp add: newMeasuresInfo_def Let_def)
qed

lemma findIndex_valid: "measuresInfo mi \<noteq> [] \<Longrightarrow> findIndex mi s < List.length (measuresInfo mi)"
  by (cases "measuresInfo mi") (auto simp: findIndex_def)

text \<open>The queries on the measure index of a score with a single signature.\<close>

lemma single_queries:
  assumes "singleSignature info" "0 < endQ"
  shows "measureNumberAtQ (newMeasuresInfo info endQ) s
           = 1 + s / getMeasureLength (timeSignatures info ! 0) + 1 / 1000000000"
    and "measureLengthAtQ (newMeasuresInfo info endQ) s = getMeasureLength (timeSignatures info ! 0)"
    and "timeSignatureAtQ (newMeasuresInfo info endQ) s = timeSignatures info ! 0"
    and "keySignatureAtQ (newMeasuresInfo info endQ) s = key (keySignatures info ! 0)"
proof -
  let ?mi = "newMeasuresInfo info endQ"
  note u = newMeasuresInfo_uniform [OF assms]
  have "findIndex ?mi s < List.length (measuresInfo ?mi)" using u(1) by (rule findIndex_valid)
  with u(2) have c: "uniformChunk info (measuresInfo ?mi ! findIndex ?mi s)"
    by (simp add: list_all_length)
  from c u(1) show "measureNumberAtQ ?mi s
           = 1 + s / getMeasureLength (timeSignatures info ! 0) + 1 / 1000000000"
    by (simp add: measureNumberAtQ_def uniformChunk_def Let_def diff_divide_distrib)
  from c u(1) show "measureLengthAtQ ?mi s = getMeasureLength (timeSignatures info ! 0)"
    by (simp add: measureLengthAtQ_def uniformChunk_def)
  from c u(1) show "timeSignatureAtQ ?mi s = timeSignatures info ! 0"
    by (simp add: timeSignatureAtQ_def uniformChunk_def)
  from c u(1) show "keySignatureAtQ ?mi s = key (keySignatures info ! 0)"
    by (simp add: keySignatureAtQ_def uniformChunk_def)
qed

lemma sameQueries_eqs:
  assumes "sameQueries mi mi'"
  shows "measureNumberAtQ mi = measureNumberAtQ mi'"
    and "measureLengthAtQ mi = measureLengthAtQ mi'"
    and "timeSignatureAtQ mi = timeSignatureAtQ mi'"
    and "keySignatureAtQ mi = keySignatureAtQ mi'"
    and "allowDottedRests mi = allowDottedRests mi'"
  using assms by (auto simp: sameQueries_def)

lemma sameQueries_split: "sameQueries mi mi' \<Longrightarrow> split mi = split mi'"
  unfolding split_def by (intro ext) (simp only: sameQueries_eqs)

lemma sameQueries_splitToBeat: "sameQueries mi mi' \<Longrightarrow> splitToBeat mi = splitToBeat mi'"
  unfolding splitToBeat_def by (intro ext) (simp only: sameQueries_eqs sameQueries_split)

lemma sameQueries_splitToStandardSymbol:
  "sameQueries mi mi' \<Longrightarrow> splitToStandardSymbol mi = splitToStandardSymbol mi'"
  unfolding splitToStandardSymbol_def standardLengths_def
  by (intro ext) (simp only: sameQueries_eqs sameQueries_split)

lemma sameQueries_calculateRenderProperties:
  "sameQueries mi mi' \<Longrightarrow> calculateRenderProperties mi = calculateRenderProperties mi'"
  unfolding calculateRenderProperties_def continuationDash_def
  by (intro ext) (simp only: sameQueries_eqs)

lemma sameQueries_groupNote: "sameQueries mi mi' \<Longrightarrow> groupNote mi = groupNote mi'"
  unfolding groupNote_def by (intro ext) (simp only: sameQueries_eqs)

lemma sameQueries_finalRest: "sameQueries mi mi' \<Longrightarrow> finalRest mi = finalRest mi'"
  unfolding finalRest_def by (intro ext) (simp only: sameQueries_eqs)

lemma sameQueries_symbolLoop:
  "sameQueries mi mi' \<Longrightarrow> symbolLoop fuel mi m h b = symbolLoop fuel mi' m h b"
  by (induction fuel arbitrary: m h b)
     (simp_all add: sameQueries_splitToStandardSymbol [of mi mi'] split: prod.splits option.splits)

lemma sameQueries_processQueue:
  "sameQueries mi mi' \<Longrightarrow> processQueue fuel mi m h q = processQueue fuel mi' m h q"
proof (induction fuel arbitrary: m h q)
  case 0
  then show ?case by (cases q) simp_all
next
  case (Suc fuel)
  show ?case
  proof (cases q)
    case Nil
    then show ?thesis by simp
  next
    case (Cons b rest)
    show ?thesis
      unfolding Cons processQueue.simps sameQueries_splitToBeat [OF Suc.prems]
        sameQueries_symbolLoop [OF Suc.prems] Suc.IH [OF Suc.prems] ..
  qed
qed

lemma sameQueries_infoToBlocks:
  "sameQueries mi mi' \<Longrightarrow> infoToBlocks fuel mi q ns = infoToBlocks fuel mi' q ns"
  unfolding infoToBlocks_def
  by (simp only: sameQueries_groupNote [of mi mi'] sameQueries_finalRest [of mi mi']
        sameQueries_processQueue [of mi mi'] sameQueries_calculateRenderProperties [of mi mi'])

section \<open>Three scores, built\<close>

lemma plainMeasures_queries:
  "measureNumberAtQ plainMeasures s = 1 + s / 4 + 1 / 1000000000"
  "measureLengthAtQ plainMeasures s = 4"
  "timeSignatureAtQ plainMeasures s = DEFAULT_TIME_SIGNATURE"
  "keySignatureAtQ plainMeasures s = 0"
  by (simp_all add: plainMeasures_def measureNumberAtQ_def measureLengthAtQ_def
        timeSignatureAtQ_def keySignatureAtQ_def findIndex_def Let_def
        DEFAULT_KEY_SIGNATURE_def DEFAULT_TIME_SIGNATURE_def)

lemma default_sameQueries:
  assumes "0 < endQ"
  shows "sameQueries (newMeasuresInfo (defaultSignatures ns) endQ) plainMeasures"
proof -
  have s: "singleSignature (defaultSignatures ns)"
    by (simp add: singleSignature_def defaultSignatures_def DEFAULT_TEMPO_def
          DEFAULT_KEY_SIGNATURE_def DEFAULT_TIME_SIGNATURE_def)
  have l: "getMeasureLength (timeSignatures (defaultSignatures ns) ! 0) = 4"
    by (simp add: defaultSignatures_def getMeasureLength_def DEFAULT_TIME_SIGNATURE_def)
  have t: "timeSignatures (defaultSignatures ns) ! 0 = DEFAULT_TIME_SIGNATURE"
    and k: "key (keySignatures (defaultSignatures ns) ! 0) = 0"
    by (simp_all add: defaultSignatures_def DEFAULT_KEY_SIGNATURE_def)
  show ?thesis
    unfolding sameQueries_def single_queries [OF s assms] plainMeasures_queries l t k
    using newMeasuresInfo_uniform(3) [OF s assms]
    by (simp add: plainMeasures_def getMeasureLength_def DEFAULT_TIME_SIGNATURE_def)
qed

lemma dotted_update:
  "update fuel dottedScore None =
     (case infoToBlocks fuel (newMeasuresInfo (defaultSignatures dottedNotes) (4000001 / 1000000))
             (4000001 / 1000000) dottedNotes of
        Some (m, h) \<Rightarrow>
          Some \<lparr> jianpuInfo = defaultSignatures dottedNotes,
                 modelMeasures = newMeasuresInfo (defaultSignatures dottedNotes) (4000001 / 1000000),
                 jianpuBlockMap = m, lastQ = 4000001 / 1000000, modelStore = h \<rparr>
      | None \<Rightarrow> None)"
  by (simp add: update_def dottedScore_def dottedNotes_def defaultSignatures_def Let_def eps_def
        DEFAULT_TEMPO_def DEFAULT_KEY_SIGNATURE_def DEFAULT_TIME_SIGNATURE_def
      cong: option.case_cong)

lemma dotted_ties_eval:
  "map_option (\<lambda>(m, h). (map (\<lambda>b. (blockSummary b, blockNotes b)) (sortedBlocks m), map tieSummary h))
     (infoToBlocks 20 plainMeasures (4000001 / 1000000) dottedNotes)
   = Some ([((0, 249999999 / 250000000, False, Some 0, None, Some False), [0]),
            ((249999999 / 250000000, 1, False, Some 0, None, Some True), [2]),
            ((499999999 / 250000000, 1, False, Some 0, None, Some True), [3]),
            ((3, 3 / 4, True, Some 1, Some 1, None), []),
            ((15 / 4, 1 / 4, False, Some 2, None, Some False), [1])],
           [(67, None, Some 2), (67, None, None), (67, Some 0, Some 3), (67, Some 2, None)])"
  by code_simp

lemma dotted_ties:
  "map_option (\<lambda>model. (map (\<lambda>b. (blockSummary b, blockNotes b)) (sortedBlocks (jianpuBlockMap model)),
                         map tieSummary (modelStore model)))
     (update 20 dottedScore None)
   = Some ([((0, 249999999 / 250000000, False, Some 0, None, Some False), [0]),
            ((249999999 / 250000000, 1, False, Some 0, None, Some True), [2]),
            ((499999999 / 250000000, 1, False, Some 0, None, Some True), [3]),
            ((3, 3 / 4, True, Some 1, Some 1, None), []),
            ((15 / 4, 1 / 4, False, Some 2, None, Some False), [1])],
           [(67, None, Some 2), (67, None, None), (67, Some 0, Some 3), (67, Some 2, None)])"
proof -
  have q: "sameQueries (newMeasuresInfo (defaultSignatures dottedNotes) (4000001 / 1000000))
             plainMeasures"
    by (rule default_sameQueries) simp
  show ?thesis
    using dotted_ties_eval
    unfolding dotted_update sameQueries_infoToBlocks [OF q]
    by (auto split: option.splits)
qed

lemma dotted_blocks:
  "map_option (\<lambda>model. map blockSummary (sortedBlocks (jianpuBlockMap model)))
     (update 20 dottedScore None)
   = Some [(0, 249999999 / 250000000, False, Some 0, None, Some False),
           (249999999 / 250000000, 1, False, Some 0, None, Some True),
           (499999999 / 250000000, 1, False, Some 0, None, Some True),
           (3, 3 / 4, True, Some 1, Some 1, None),
           (15 / 4, 1 / 4, False, Some 2, None, Some False)]"
proof -
  have "map_option (\<lambda>p. map fst (fst p))
          (map_option (\<lambda>model. (map (\<lambda>b. (blockSummary b, blockNotes b)) (sortedBlocks (jianpuBlockMap model)),
                         map tieSummary (modelStore model)))
     (update 20 dottedScore None))
      = Some [(0, 249999999 / 250000000, False, Some 0, None, Some False),
           (249999999 / 250000000, 1, False, Some 0, None, Some True),
           (499999999 / 250000000, 1, False, Some 0, None, Some True),
           (3, 3 / 4, True, Some 1, Some 1, None),
           (15 / 4, 1 / 4, False, Some 2, None, Some False)]"
    by (simp only: dotted_ties) simp
  then show ?thesis by (simp add: option.map_comp comp_def)
qed

lemma chord_update:
  "update fuel chordScore None =
     (case infoToBlocks fuel (newMeasuresInfo (defaultSignatures chordNotes) (2000001 / 1000000))
             (2000001 / 1000000) chordNotes of
        Some (m, h) \<Rightarrow>
          Some \<lparr> jianpuInfo = defaultSignatures chordNotes,
                 modelMeasures = newMeasuresInfo (defaultSignatures chordNotes) (2000001 / 1000000),
                 jianpuBlockMap = m, lastQ = 2000001 / 1000000, modelStore = h \<rparr>
      | None \<Rightarrow> None)"
  by (simp add: update_def chordScore_def chordNotes_def defaultSignatures_def Let_def eps_def
        DEFAULT_TEMPO_def DEFAULT_KEY_SIGNATURE_def DEFAULT_TIME_SIGNATURE_def
      cong: option.case_cong)

lemma chord_eval:
  "map_option (\<lambda>(m, h). map (blockPitches h) (sortedBlocks m))
     (infoToBlocks 20 plainMeasures (2000001 / 1000000) chordNotes)
   = Some [(0, 1, [60, 64])]"
  by code_simp

lemma chord_blocks:
  "map_option (\<lambda>model. (map (blockPitches (modelStore model)) (sortedBlocks (jianpuBlockMap model)),
                         getTotalDuration model))
     (update 20 chordScore None)
   = Some ([(0, 1, [60, 64])], 2000001 / 1000000)"
proof -
  have q: "sameQueries (newMeasuresInfo (defaultSignatures chordNotes) (2000001 / 1000000))
             plainMeasures"
    by (rule default_sameQueries) simp
  show ?thesis
    using chord_eval
    unfolding chord_update sameQueries_infoToBlocks [OF q]
    by (auto simp: getTotalDuration_def split: option.splits)
qed

lemma chordShortFirst_update:
  "update fuel chordScoreShortFirst None =
     (case infoToBlocks fuel (newMeasuresInfo (defaultSignatures chordNotesShortFirst) (2000001 / 1000000))
             (2000001 / 1000000) chordNotesShortFirst of
        Some (m, h) \<Rightarrow>
          Some \<lparr> jianpuInfo = defaultSignatures chordNotesShortFirst,
                 modelMeasures = newMeasuresInfo (defaultSignatures chordNotesShortFirst) (2000001 / 1000000),
                 jianpuBlockMap = m, lastQ = 2000001 / 1000000, modelStore = h \<rparr>
      | None \<Rightarrow> None)"
  by (simp add: update_def chordScoreShortFirst_def chordNotesShortFirst_def defaultSignatures_def
        Let_def eps_def DEFAULT_TEMPO_def DEFAULT_KEY_SIGNATURE_def DEFAULT_TIME_SIGNATURE_def
      cong: option.case_cong)

lemma chordShortFirst_eval:
  "map_option (\<lambda>(m, h). map (blockPitches h) (sortedBlocks m))
     (infoToBlocks 20 plainMeasures (2000001 / 1000000) chordNotesShortFirst)
   = Some [(0, 1, [64, 60]), (1, 249999999 / 250000000, []),
           (499999999 / 250000000, 251 / 250000000, [])]"
  by code_simp

lemma chordShortFirst_blocks:
  "map_option (\<lambda>model. (map (blockPitches (modelStore model)) (sortedBlocks (jianpuBlockMap model)),
                         getTotalDuration model))
     (update 20 chordScoreShortFirst None)
   = Some ([(0, 1, [64, 60]), (1, 249999999 / 250000000, []),
            (499999999 / 250000000, 251 / 250000000, [])], 2000001 / 1000000)"
proof -
  have q: "sameQueries (newMeasuresInfo (defaultSignatures chordNotesShortFirst) (2000001 / 1000000))
             plainMeasures"
    by (rule default_sameQueries) simp
  show ?thesis
    using chordShortFirst_eval
    unfolding chordShortFirst_update sameQueries_infoToBlocks [OF q]
    by (auto simp: getTotalDuration_def split: option.splits)
qed

text \<open>
  C3 as stated fails: the build makes five blocks, not three; the block at 0 is cut at the
  first beat (its length is 1 - 4e-9, from the 1e-9 that \<open>measureNumberAtQ\<close> adds), it has
  no augmentation dot and its dash is false.
\<close>

theorem dotted_half_counterexample:
  "map_option (\<lambda>model. map (\<lambda>b. (JianpuBlock.start b, JianpuBlock.length b, augmentationDots b, augmentationDash b))
                          (sortedBlocks (jianpuBlockMap model)))
     (update 20 dottedScore None)
   = Some [(0, 249999999 / 250000000, None, Some False),
           (249999999 / 250000000, 1, None, Some True),
           (499999999 / 250000000, 1, None, Some True),
           (3, 3 / 4, Some 1, None),
           (15 / 4, 1 / 4, None, Some False)]"
proof -
  let ?g = "\<lambda>(s :: rat, l :: rat, r :: bool, dl :: nat option, d :: nat option, a :: bool option). (s, l, d, a)"
  have "map_option (map ?g) (map_option (\<lambda>model. map blockSummary (sortedBlocks (jianpuBlockMap model)))
     (update 20 dottedScore None)) = map_option (map ?g) (Some [(0, 249999999 / 250000000, False, Some 0, None, Some False),
           (249999999 / 250000000, 1, False, Some 0, None, Some True),
           (499999999 / 250000000, 1, False, Some 0, None, Some True),
           (3, 3 / 4, True, Some 1, Some 1, None),
           (15 / 4, 1 / 4, False, Some 2, None, Some False)])"
    by (simp only: dotted_blocks)
  then show ?thesis
    by (simp add: option.map_comp comp_def blockSummary_def)
qed

text \<open>
  C3 amended.  For the notes (start 0, length 3, pitch 67) and (start 3.75, length 0.25,
  pitch 67) in 4/4 the build ends and makes exactly five blocks, in order of start.  The
  first note makes three of them, of one note each, at 0, 1 and 2 and of length 1, all
  within 1e-6, with no augmentation dot, the first without and the second and third with
  the augmentation dash; their notes are tied in a chain: the note of the first block is
  tied to the note of the second, which is tied from it and to the note of the third,
  which is tied from the second and to nothing.  Then come a rest at 3 of length 0.75 and
  a block at 3.75 of length 0.25 with the second note, which is not tied.  All notes have
  pitch 67.
\<close>

theorem dotted_scenario:
  "\<exists>model b0 b1 b2 b3 b4.
     update 20 dottedScore None = Some model
   \<and> sortedBlocks (jianpuBlockMap model) = [b0, b1, b2, b3, b4]
   \<and> near (JianpuBlock.start b0) 0 \<and> near (JianpuBlock.length b0) 1 \<and> blockNotes b0 = [0]
   \<and> augmentationDots b0 = None \<and> augmentationDash b0 = Some False
   \<and> near (JianpuBlock.start b1) 1 \<and> near (JianpuBlock.length b1) 1 \<and> blockNotes b1 = [2]
   \<and> augmentationDots b1 = None \<and> augmentationDash b1 = Some True
   \<and> near (JianpuBlock.start b2) 2 \<and> near (JianpuBlock.length b2) 1 \<and> blockNotes b2 = [3]
   \<and> augmentationDots b2 = None \<and> augmentationDash b2 = Some True
   \<and> JianpuBlock.start b3 = 3 \<and> JianpuBlock.length b3 = 3 / 4 \<and> blockNotes b3 = []
   \<and> JianpuBlock.start b4 = 15 / 4 \<and> JianpuBlock.length b4 = 1 / 4 \<and> blockNotes b4 = [1]
   \<and> map tieSummary (modelStore model)
       = [(67, None, Some 2), (67, None, None), (67, Some 0, Some 3), (67, Some 2, None)]"
proof -
  from dotted_ties obtain model where
    u: "update 20 dottedScore None = Some model"
    and b: "map (\<lambda>b. (blockSummary b, blockNotes b)) (sortedBlocks (jianpuBlockMap model))
          = [((0, 249999999 / 250000000, False, Some 0, None, Some False), [0]),
            ((249999999 / 250000000, 1, False, Some 0, None, Some True), [2]),
            ((499999999 / 250000000, 1, False, Some 0, None, Some True), [3]),
            ((3, 3 / 4, True, Some 1, Some 1, None), []),
            ((15 / 4, 1 / 4, False, Some 2, None, Some False), [1])]"
    and t: "map tieSummary (modelStore model)
       = [(67, None, Some 2), (67, None, None), (67, Some 0, Some 3), (67, Some 2, None)]"
    by auto
  from b obtain b0 b1 b2 b3 b4 where
    l: "sortedBlocks (jianpuBlockMap model) = [b0, b1, b2, b3, b4]"
    and s: "blockSummary b0 = (0, 249999999 / 250000000, False, Some 0, None, Some False)"
           "blockNotes b0 = [0]"
           "blockSummary b1 = (249999999 / 250000000, 1, False, Some 0, None, Some True)"
           "blockNotes b1 = [2]"
           "blockSummary b2 = (499999999 / 250000000, 1, False, Some 0, None, Some True)"
           "blockNotes b2 = [3]"
           "blockSummary b3 = (3, 3 / 4, True, Some 1, Some 1, None)" "blockNotes b3 = []"
           "blockSummary b4 = (15 / 4, 1 / 4, False, Some 2, None, Some False)"
           "blockNotes b4 = [1]"
    by (auto simp: map_eq_Cons_conv)
  from s have n: "near (JianpuBlock.start b0) 0 \<and> near (JianpuBlock.length b0) 1
   \<and> augmentationDots b0 = None \<and> augmentationDash b0 = Some False
   \<and> near (JianpuBlock.start b1) 1 \<and> near (JianpuBlock.length b1) 1
   \<and> augmentationDots b1 = None \<and> augmentationDash b1 = Some True
   \<and> near (JianpuBlock.start b2) 2 \<and> near (JianpuBlock.length b2) 1
   \<and> augmentationDots b2 = None \<and> augmentationDash b2 = Some True
   \<and> JianpuBlock.start b3 = 3 \<and> JianpuBlock.length b3 = 3 / 4
   \<and> JianpuBlock.start b4 = 15 / 4 \<and> JianpuBlock.length b4 = 1 / 4"
    by (simp add: blockSummary_def near_def isSafeZero_def eps_def)
  show ?thesis
    by (rule exI [of _ model], rule exI [of _ b0], rule exI [of _ b1], rule exI [of _ b2],
        rule exI [of _ b3], rule exI [of _ b4], simp add: u l s(2,4,6,8,10) t n)
qed


text \<open>
  C1 fails for a chord of two notes of different length with the longer note first: for
  the notes (start 0, length 2, pitch 60) and (start 0, length 1, pitch 64) the build
  makes one block, at 0 and of length 1, with both notes, while the total duration is
  2.000001: no block covers the time from 1 on.
\<close>

theorem chord_hole:
  "map_option (\<lambda>model. (map (blockPitches (modelStore model)) (sortedBlocks (jianpuBlockMap model)),
                         getTotalDuration model))
     (update 20 chordScore None)
   = Some ([(0, 1, [60, 64])], 2000001 / 1000000)
 \<and> eps < 2000001 / 1000000 - (0 + 1)"
  by (simp add: chord_blocks eps_def)

text \<open>
  With the shorter note first the same chord gets rests from 1 up to the total duration.
\<close>

lemma chord_short_first:
  "map_option (\<lambda>model. (map (blockPitches (modelStore model)) (sortedBlocks (jianpuBlockMap model)),
                         getTotalDuration model))
     (update 20 chordScoreShortFirst None)
   = Some ([(0, 1, [64, 60]), (1, 249999999 / 250000000, []),
            (499999999 / 250000000, 251 / 250000000, [])], 2000001 / 1000000)
 \<and> 499999999 / 250000000 + 251 / 250000000 = (2000001 / 1000000 :: rat)"
  by (simp add: chordShortFirst_blocks)

end
